theory Spec2Isabelle
  imports Complex_Main "HOL-Library.Sublist"
begin

section \<open>Python values used by \<open>local_validation_local.py\<close>\<close>

text \<open>
  A Python \<open>str\<close> is a sequence of Unicode code points; it is modelled as the list of
  these code points, so that \<open>in\<close>, \<open>split\<close> and \<open>strip\<close> see exactly the items Python
  sees. \<open>lit\<close> turns a source literal (all literals of the script are ASCII) into
  such a list.
\<close>

type_synonym pystr = "nat list"

definition lit :: "string \<Rightarrow> pystr" where
  "lit s = map of_char s"

text \<open>
  The exceptions that the modelled code can raise; \<open>JSONDecodeError\<close> carries its message.
\<close>

datatype py_error = IndexError | ValueError | ZeroDivisionError | JSONDecodeError pystr

text \<open>\<open>sub in s\<close> on strings: \<open>sub\<close> occurs in \<open>s\<close> as a contiguous run.\<close>

fun contains :: "'a list \<Rightarrow> 'a list \<Rightarrow> bool" where
  "contains sub [] = (sub = [])"
| "contains sub (c # cs) = (prefix sub (c # cs) \<or> contains sub cs)"

text \<open>
  \<open>str.isspace\<close> of one code point, as CPython's Unicode database has it; \<open>s.strip()\<close>
  removes such code points from both ends.
\<close>

definition isspace :: "nat \<Rightarrow> bool" where
  "isspace c \<longleftrightarrow>
     (9 \<le> c \<and> c \<le> 13) \<or> (28 \<le> c \<and> c \<le> 32) \<or> c = 133 \<or> c = 160 \<or> c = 5760 \<or>
     (8192 \<le> c \<and> c \<le> 8202) \<or> c = 8232 \<or> c = 8233 \<or> c = 8239 \<or> c = 8287 \<or> c = 12288"

definition strip :: "pystr \<Rightarrow> pystr" where
  "strip s = rev (dropWhile isspace (rev (dropWhile isspace s)))"

text \<open>
  \<open>s.split(sep)\<close>: the pieces of \<open>s\<close> between the occurrences of \<open>sep\<close>, found from the
  left without overlap. \<open>split_from\<close> carries the current piece reversed. An empty
  separator raises \<open>ValueError\<close>.
\<close>

fun split_from :: "'a list \<Rightarrow> 'a list \<Rightarrow> 'a list \<Rightarrow> 'a list list" where
  "split_from sep piece [] = [rev piece]"
| "split_from sep piece (c # cs) =
     (if sep \<noteq> [] \<and> prefix sep (c # cs)
      then rev piece # split_from sep [] (drop (length sep) (c # cs))
      else split_from sep (c # piece) cs)"

definition str_split :: "'a list \<Rightarrow> 'a list \<Rightarrow> py_error + 'a list list" where
  "str_split s sep = (if sep = [] then Inl ValueError else Inr (split_from sep [] s))"

text \<open>\<open>xs[i]\<close>: a negative index counts from the end, an index out of range raises.\<close>

definition item :: "'a list \<Rightarrow> int \<Rightarrow> py_error + 'a" where
  "item xs i =
     (if 0 \<le> i \<and> i < int (length xs) then Inr (xs ! nat i)
      else if i < 0 \<and> - int (length xs) \<le> i then Inr (xs ! nat (int (length xs) + i))
      else Inl IndexError)"

text \<open>
  A \<open>for\<close> loop over a list whose body updates the loop state and may raise: the first
  exception ends the loop.
\<close>

fun for_each :: "('a \<Rightarrow> 's \<Rightarrow> py_error + 's) \<Rightarrow> 'a list \<Rightarrow> 's \<Rightarrow> py_error + 's" where
  "for_each body [] s = Inr s"
| "for_each body (x # xs) s =
     (case body x s of Inl e \<Rightarrow> Inl e | Inr s' \<Rightarrow> for_each body xs s')"

section \<open>The result parser: \<open>LocalValidator._parse_test_results\<close>\<close>

text \<open>One entry of \<open>test_results\<close>: the dict with the keys \<open>name\<close> and \<open>status\<close>.\<close>

record test_result =
  tr_name :: pystr
  tr_status :: pystr

text \<open>
  The body of the first loop. Its state is the flag \<open>in_test_results\<close> and the list
  \<open>test_results\<close> built so far; \<open>continue\<close> is the state returned unchanged.
\<close>

definition structured_step ::
  "pystr \<Rightarrow> bool \<times> test_result list \<Rightarrow> py_error + bool \<times> test_result list" where
  "structured_step line st =
     (case st of (in_test_results, test_results) \<Rightarrow>
        if contains (lit ''========== TEST RESULTS =========='') line then Inr (True, test_results)
        else if contains (lit ''========== LOGS =========='') line then Inr (False, test_results)
        else if in_test_results \<and> strip line \<noteq> [] then
          if contains (lit '' - '') line \<and>
             (contains (lit ''pass'') line \<or> contains (lit ''fail'') line \<or>
              contains (lit ''skip'') line)
          then
            case str_split line (lit '' - '') of
              Inl e \<Rightarrow> Inl e
            | Inr parts \<Rightarrow>
                if length parts \<ge> 3 then
                  case item parts 0 of
                    Inl e \<Rightarrow> Inl e
                  | Inr first \<Rightarrow>
                      (case item parts (- 1) of
                         Inl e \<Rightarrow> Inl e
                       | Inr final \<Rightarrow>
                           Inr (in_test_results,
                                test_results @
                                [\<lparr>tr_name = strip first, tr_status = strip final\<rparr>]))
                else Inr (in_test_results, test_results)
          else Inr (in_test_results, test_results)
        else Inr (in_test_results, test_results))"

text \<open>The body of the second loop (the old format), run only when the first found nothing.\<close>

definition fallback_step :: "pystr \<Rightarrow> test_result list \<Rightarrow> py_error + test_result list" where
  "fallback_step line test_results =
     (if contains (lit ''PASSED'') line \<or> contains (lit ''FAILED'') line then
        if contains (lit ''PASSED'') line then
          case str_split line (lit '':'') of
            Inl e \<Rightarrow> Inl e
          | Inr parts \<Rightarrow>
              (case item parts 0 of
                 Inl e \<Rightarrow> Inl e
               | Inr first \<Rightarrow>
                   Inr (test_results @ [\<lparr>tr_name = strip first, tr_status = lit ''pass''\<rparr>]))
        else if contains (lit ''FAILED'') line then
          case str_split line (lit '':'') of
            Inl e \<Rightarrow> Inl e
          | Inr parts \<Rightarrow>
              (case item parts 0 of
                 Inl e \<Rightarrow> Inl e
               | Inr first \<Rightarrow>
                   Inr (test_results @ [\<lparr>tr_name = strip first, tr_status = lit ''fail''\<rparr>]))
        else Inr test_results
      else Inr test_results)"

definition parse_test_results :: "pystr \<Rightarrow> py_error + test_result list" where
  "parse_test_results output =
     (case str_split output (lit ''\<newline>'') of
        Inl e \<Rightarrow> Inl e
      | Inr lines \<Rightarrow>
          (case for_each structured_step lines (False, []) of
             Inl e \<Rightarrow> Inl e
           | Inr (in_test_results, test_results) \<Rightarrow>
               if test_results = [] then for_each fallback_step lines test_results
               else Inr test_results))"

section \<open>The problem runner: \<open>LocalValidator.run_agent_on_problem\<close>\<close>

text \<open>The fields of \<open>self\<close> that the runner reads.\<close>

record local_validator =
  agent_path :: pystr
  timeout :: int
  gateway_url :: pystr

text \<open>A selected problem: the dict with the keys \<open>name\<close>, \<open>suite\<close> and \<open>tests\<close>.\<close>

record problem =
  p_name :: pystr
  p_suite :: pystr
  p_tests :: "pystr list"

text \<open>
  What \<open>subprocess.run\<close> does: it returns a \<open>CompletedProcess\<close>, raises
  \<open>TimeoutExpired\<close> when the child outlives \<open>timeout + 60\<close> seconds, or raises another
  \<open>Exception\<close>, of which the handler reads \<open>str(e)\<close> only.
\<close>

record completed_process =
  proc_stdout :: pystr
  proc_stderr :: pystr
  returncode :: int

datatype subprocess_result = Completed completed_process | TimeoutExpired | Raised pystr

text \<open>
  One call as the environment decides it: the clock read before the \<open>try\<close>, the fate of
  the child, the clock read after the child returned, and the clock read in the last handler.
  Times are modelled as exact rationals.
\<close>

record execution =
  start_time :: rat
  proc :: subprocess_result
  end_time :: rat
  except_time :: rat

text \<open>The dict that the runner returns.\<close>

record outcome =
  problem_name :: pystr
  suite :: pystr
  status :: pystr
  duration :: rat
  test_results :: "test_result list"
  stdout :: pystr
  stderr :: pystr
  return_code :: int

text \<open>\<open>str(e)\<close> of the exceptions of the model, as CPython words them.\<close>

fun error_text :: "py_error \<Rightarrow> pystr" where
  "error_text IndexError = lit ''list index out of range''"
| "error_text ValueError = lit ''empty separator''"
| "error_text ZeroDivisionError = lit ''division by zero''"
| "error_text (JSONDecodeError msg) = msg"

text \<open>
  The \<open>if\<close>/\<open>elif\<close> chain over \<open>result.stdout\<close>: it starts from \<open>status = "error"\<close> and
  \<open>test_results = []\<close>, and has no \<open>else\<close>. The parser is called in the two success
  branches only; an exception of the parser leaves the chain.
\<close>

definition classify_stdout :: "pystr \<Rightarrow> py_error + pystr \<times> test_result list" where
  "classify_stdout out =
     (if contains (lit ''Container exceeded timeout'') out then Inr (lit ''timeout'', [])
      else if contains (lit ''ERROR'') out \<and> contains (lit ''========== ERROR =========='') out
      then Inr (lit ''error'', [])
      else if contains (lit ''passed'') out \<and> contains (lit ''failed'') out \<and>
              contains (lit ''skipped'') out
      then (case parse_test_results out of
              Inl e \<Rightarrow> Inl e
            | Inr parsed \<Rightarrow> Inr (lit ''success'', parsed))
      else if contains (lit ''SUCCESS'') out \<or> contains (lit ''test_results'') out
      then (case parse_test_results out of
              Inl e \<Rightarrow> Inl e
            | Inr parsed \<Rightarrow> Inr (lit ''success'', parsed))
      else Inr (lit ''error'', []))"

text \<open>The dict of the handler \<open>except Exception as e\<close>.\<close>

definition exception_outcome :: "problem \<Rightarrow> execution \<Rightarrow> pystr \<Rightarrow> outcome" where
  "exception_outcome problem ex message =
     \<lparr>problem_name = p_name problem, suite = p_suite problem, status = lit ''error'',
      duration = except_time ex - start_time ex, test_results = [],
      stdout = [], stderr = message, return_code = - 1\<rparr>"

definition run_agent_on_problem :: "local_validator \<Rightarrow> problem \<Rightarrow> execution \<Rightarrow> outcome" where
  "run_agent_on_problem self problem ex =
     (case proc ex of
        Completed result \<Rightarrow>
          (case classify_stdout (proc_stdout result) of
             Inr (st, parsed) \<Rightarrow>
               \<lparr>problem_name = p_name problem, suite = p_suite problem, status = st,
                duration = end_time ex - start_time ex, test_results = parsed,
                stdout = proc_stdout result, stderr = proc_stderr result,
                return_code = returncode result\<rparr>
           | Inl e \<Rightarrow> exception_outcome problem ex (error_text e))
      | TimeoutExpired \<Rightarrow>
          \<lparr>problem_name = p_name problem, suite = p_suite problem, status = lit ''timeout'',
           duration = of_int (timeout self + 60), test_results = [],
           stdout = [], stderr = lit ''Process timed out'', return_code = - 1\<rparr>
      | Raised message \<Rightarrow> exception_outcome problem ex message)"

section \<open>The score aggregator: \<open>LocalValidator.calculate_scores\<close>\<close>

text \<open>
  \<open>a / b\<close> on integers: true division, which raises on a zero divisor. The float it
  returns is modelled by the exact quotient.
\<close>

definition truediv :: "nat \<Rightarrow> nat \<Rightarrow> py_error + rat" where
  "truediv a b = (if b = 0 then Inl ZeroDivisionError else Inr (of_nat a / of_nat b))"

text \<open>The returned dict, one record for each nested dict.\<close>

record overall_scores =
  total_problems :: nat
  successful_problems :: nat
  timeout_problems :: nat
  error_problems :: nat
  success_rate :: rat

record test_scores =
  total_tests :: nat
  passed_tests :: nat
  test_success_rate :: rat

record suite_scores =
  suite_total :: nat
  suite_successful :: nat
  suite_success_rate :: rat

record by_suite_scores =
  polyglot :: suite_scores
  swebench_verified :: suite_scores

record score_report =
  overall :: overall_scores
  tests :: test_scores
  by_suite :: by_suite_scores

text \<open>
  The nested loops that count tests; the state is the pair of the counters
  \<open>total_tests\<close> and \<open>passed_tests\<close>.
\<close>

definition count_test :: "test_result \<Rightarrow> nat \<times> nat \<Rightarrow> nat \<times> nat" where
  "count_test test c =
     (case c of (tests_seen, tests_passed) \<Rightarrow>
        (tests_seen + 1,
         if tr_status test = lit ''pass'' then tests_passed + 1 else tests_passed))"

definition count_result :: "outcome \<Rightarrow> nat \<times> nat \<Rightarrow> nat \<times> nat" where
  "count_result result c =
     (if status result = lit ''success'' \<and> test_results result \<noteq> []
      then fold count_test (test_results result) c else c)"

definition calculate_scores :: "outcome list \<Rightarrow> py_error + score_report" where
  "calculate_scores results =
     (let total_count = length results;
          successful = sum_list [1. r \<leftarrow> results, status r = lit ''success''];
          timeouts = sum_list [1. r \<leftarrow> results, status r = lit ''timeout''];
          errors = sum_list [1. r \<leftarrow> results, status r = lit ''error''];
          counted = fold count_result results (0, 0);
          polyglot_results = [r. r \<leftarrow> results, suite r = lit ''polyglot''];
          swebench_results = [r. r \<leftarrow> results, suite r = lit ''swebench_verified''];
          polyglot_success = sum_list [1. r \<leftarrow> polyglot_results, status r = lit ''success''];
          swebench_success = sum_list [1. r \<leftarrow> swebench_results, status r = lit ''success'']
      in
        case (if total_count > 0 then truediv successful total_count else Inr 0) of
          Inl e \<Rightarrow> Inl e
        | Inr rate \<Rightarrow>
            (case (if fst counted > 0 then truediv (snd counted) (fst counted) else Inr 0) of
               Inl e \<Rightarrow> Inl e
             | Inr test_rate \<Rightarrow>
                 (case (if polyglot_results \<noteq> []
                        then truediv polyglot_success (length polyglot_results) else Inr 0) of
                    Inl e \<Rightarrow> Inl e
                  | Inr polyglot_rate \<Rightarrow>
                      (case (if swebench_results \<noteq> []
                             then truediv swebench_success (length swebench_results)
                             else Inr 0) of
                         Inl e \<Rightarrow> Inl e
                       | Inr swebench_rate \<Rightarrow>
                           Inr \<lparr>overall =
                                  \<lparr>total_problems = total_count,
                                   successful_problems = successful,
                                   timeout_problems = timeouts, error_problems = errors,
                                   success_rate = rate\<rparr>,
                                tests =
                                  \<lparr>total_tests = fst counted, passed_tests = snd counted,
                                   test_success_rate = test_rate\<rparr>,
                                by_suite =
                                  \<lparr>polyglot =
                                     \<lparr>suite_total = length polyglot_results,
                                      suite_successful = polyglot_success,
                                      suite_success_rate = polyglot_rate\<rparr>,
                                   swebench_verified =
                                     \<lparr>suite_total = length swebench_results,
                                      suite_successful = swebench_success,
                                      suite_success_rate = swebench_rate\<rparr>\<rparr>\<rparr>))))"

section \<open>The problem selector: \<open>LocalValidator.get_sample_problems\<close>\<close>

text \<open>
  A catalog file is missing (\<open>Path.exists\<close> is false), or \<open>json.load\<close> raises on it, or
  it holds a list of entries. An entry of the Polyglot catalog has the keys \<open>name\<close> and
  \<open>tests\<close>; an entry of the SWE-bench catalog has \<open>instance_id\<close>, and its two lists of
  tests are read with \<open>get\<close> and the default \<open>[]\<close>, hence may be absent.
\<close>

datatype 'a catalog_file = Missing | Malformed pystr | Catalog "'a list"

record polyglot_entry =
  pe_name :: pystr
  pe_tests :: "pystr list"

record swebench_entry =
  instance_id :: pystr
  FAIL_TO_PASS :: "pystr list option"
  PASS_TO_PASS :: "pystr list option"

text \<open>
  The list \<open>focused_problems\<close>. The source has no comma between \<open>"proverb"\<close> and
  \<open>"scale-generator"\<close>, and Python joins adjacent string literals.
\<close>

definition focused_problems :: "pystr list" where
  "focused_problems =
     [lit ''affine-cipher'', lit ''robot-name'', lit ''pig-latin'', lit ''poker'', lit ''grep'',
      lit ''rest-api'', lit ''phone-number'', lit ''pov'', lit ''hungman'',
      lit ''proverb'' @ lit ''scale-generator'',
      lit ''beer-song'', lit ''bowling'', lit ''connect'', lit ''food-chain'', lit ''book-store'',
      lit ''list-ops'', lit ''grade-school'', lit ''dot-dsl'', lit ''forth'', lit ''react'']"

text \<open>The dicts appended to \<open>sample_problems\<close> for an entry of each catalog.\<close>

definition polyglot_problem :: "polyglot_entry \<Rightarrow> problem" where
  "polyglot_problem e = \<lparr>p_name = pe_name e, p_suite = lit ''polyglot'', p_tests = pe_tests e\<rparr>"

definition swebench_problem :: "swebench_entry \<Rightarrow> problem" where
  "swebench_problem e =
     \<lparr>p_name = instance_id e, p_suite = lit ''swebench_verified'',
      p_tests = (case FAIL_TO_PASS e of None \<Rightarrow> [] | Some ts \<Rightarrow> ts) @
                (case PASS_TO_PASS e of None \<Rightarrow> [] | Some ts \<Rightarrow> ts)\<rparr>"

text \<open>
  Reading one catalog and looping over what \<open>pick\<close> keeps of it: nothing when the file
  is missing, the exception of \<open>json.load\<close> when it is malformed.
\<close>

definition from_catalog ::
  "'a catalog_file \<Rightarrow> ('a list \<Rightarrow> 'a list) \<Rightarrow> ('a \<Rightarrow> problem) \<Rightarrow> py_error + problem list" where
  "from_catalog catalog pick to_problem =
     (case catalog of
        Missing \<Rightarrow> Inr []
      | Malformed msg \<Rightarrow> Inl (JSONDecodeError msg)
      | Catalog entries \<Rightarrow> Inr [to_problem e. e \<leftarrow> pick entries])"

definition get_sample_problems ::
  "bool \<Rightarrow> polyglot_entry catalog_file \<Rightarrow> swebench_entry catalog_file \<Rightarrow>
   py_error + problem list" where
  "get_sample_problems focused polyglot_file swebench_file =
     (if focused then
        case from_catalog polyglot_file
               (filter (\<lambda>e. pe_name e \<in> set focused_problems)) polyglot_problem of
          Inl e \<Rightarrow> Inl e
        | Inr from_polyglot \<Rightarrow>
            (case from_catalog swebench_file
                    (filter (\<lambda>e. instance_id e \<in> set focused_problems)) swebench_problem of
               Inl e \<Rightarrow> Inl e
             | Inr from_swebench \<Rightarrow> Inr (from_polyglot @ from_swebench))
      else
        case from_catalog polyglot_file (take 5) polyglot_problem of
          Inl e \<Rightarrow> Inl e
        | Inr from_polyglot \<Rightarrow>
            (case from_catalog swebench_file (take 5) swebench_problem of
               Inl e \<Rightarrow> Inl e
             | Inr from_swebench \<Rightarrow> Inr (from_polyglot @ from_swebench)))"

section \<open>The session: \<open>LocalValidator.run_validation\<close>\<close>

text \<open>
  The part of \<open>run_validation\<close> that builds the list \<open>results\<close> and aggregates it: the
  selection, one call of the runner for each selected problem, in order, and the one
  call of \<open>calculate_scores\<close> in the script. \<open>env i\<close> is what the environment does
  during the call for the problem at index \<open>i\<close>. The gateway, the progress display, the
  pause between problems and the writing of the report are left out.
\<close>

definition run_validation ::
  "local_validator \<Rightarrow> bool \<Rightarrow> polyglot_entry catalog_file \<Rightarrow> swebench_entry catalog_file \<Rightarrow>
   (nat \<Rightarrow> execution) \<Rightarrow> py_error + outcome list \<times> score_report" where
  "run_validation self focused polyglot_file swebench_file env =
     (case get_sample_problems focused polyglot_file swebench_file of
        Inl e \<Rightarrow> Inl e
      | Inr sample_problems \<Rightarrow>
          (let results = map (\<lambda>(i, problem). run_agent_on_problem self problem (env i))
                           (enumerate 0 sample_problems)
           in case calculate_scores results of
                Inl e \<Rightarrow> Inl e
              | Inr scores \<Rightarrow> Inr (results, scores)))"

section \<open>Facts about the string operations\<close>

lemma contains_iff_sublist: "contains sub s \<longleftrightarrow> sublist sub s"
  by (induction s) (auto simp: sublist_Cons_right)

lemma contains_set: "contains sub s \<Longrightarrow> set sub \<subseteq> set s"
  by (simp add: contains_iff_sublist set_mono_sublist)

lemma split_from_not_Nil: "split_from sep piece s \<noteq> []"
  by (induction sep piece s rule: split_from.induct) auto

text \<open>Every piece of a split occurs in the string that was split.\<close>

lemma split_from_pieces:
  "l \<in> set (split_from sep piece s) \<Longrightarrow> sublist l (rev piece @ s)"
proof (induction sep piece s rule: split_from.induct)
  case (1 sep piece)
  then show ?case by simp
next
  case (2 sep piece c cs)
  show ?case
  proof (cases "sep \<noteq> [] \<and> prefix sep (c # cs)")
    case True
    with 2 have "l = rev piece \<or> sublist l (drop (length sep) (c # cs))" by auto
    then show ?thesis
    proof
      assume "l = rev piece"
      then show ?thesis by (simp add: sublist_appendI)
    next
      assume "sublist l (drop (length sep) (c # cs))"
      then have "sublist l (c # cs)"
        by (rule sublist_order.order.trans) (rule sublist_drop)
      then show ?thesis
        by (rule sublist_order.order.trans) (rule sublist_append_leftI)
    qed
  next
    case False
    with 2 show ?thesis by auto
  qed
qed

lemma line_contains:
  assumes "l \<in> set (split_from sep [] s)" "contains m l"
  shows "contains m s"
  using split_from_pieces [OF assms(1)] assms(2)
  by (auto simp: contains_iff_sublist intro: sublist_order.order.trans)

lemma lit_Nil_iff: "lit s = [] \<longleftrightarrow> s = []"
  by (simp add: lit_def)

lemma str_split_lit: "s \<noteq> [] \<Longrightarrow> str_split x (lit s) = Inr (split_from (lit s) [] x)"
  by (simp add: str_split_def lit_Nil_iff)

lemma item_first: "xs \<noteq> [] \<Longrightarrow> item xs 0 = Inr (hd xs)"
  by (cases xs) (simp_all add: item_def)

lemma item_last: "xs \<noteq> [] \<Longrightarrow> item xs (- 1) = Inr (last xs)"
  by (cases xs rule: rev_cases) (simp_all add: item_def nth_append)

lemma dropWhile_all: "(\<forall>x \<in> set (dropWhile P xs). P x) \<longleftrightarrow> (\<forall>x \<in> set xs. P x)"
  by (induction xs) auto

lemma strip_Nil_iff: "strip s = [] \<longleftrightarrow> (\<forall>c \<in> set s. isspace c)"
  by (simp add: strip_def dropWhile_eq_Nil_conv dropWhile_all)

lemma strip_not_Nil:
  assumes "contains sub s" "c \<in> set sub" "\<not> isspace c"
  shows "strip s \<noteq> []"
  using assms contains_set [of sub s] by (auto simp: strip_Nil_iff)

text \<open>A line that holds one of the three tokens is not blank.\<close>

lemma token_not_blank:
  assumes "contains (lit ''pass'') line \<or> contains (lit ''fail'') line \<or>
           contains (lit ''skip'') line"
  shows "strip line \<noteq> []"
proof -
  have p: "112 \<in> set (lit ''pass'')" and f: "102 \<in> set (lit ''fail'')"
    and s: "115 \<in> set (lit ''skip'')"
    by (simp_all add: lit_def)
  have n: "\<not> isspace 112" "\<not> isspace 102" "\<not> isspace 115"
    by (simp_all add: isspace_def)
  from assms show ?thesis
    using strip_not_Nil [OF _ p n(1)] strip_not_Nil [OF _ f n(2)] strip_not_Nil [OF _ s n(3)]
    by blast
qed

section \<open>Facts about the loops of the parser\<close>

lemma for_each_append:
  "for_each body (xs @ ys) s =
     (case for_each body xs s of Inl e \<Rightarrow> Inl e | Inr s' \<Rightarrow> for_each body ys s')"
  by (induction xs arbitrary: s) (auto split: sum.splits)

lemma for_each_total:
  assumes "\<And>x s. \<exists>s'. body x s = Inr s'"
  shows "\<exists>s'. for_each body xs s = Inr s'"
proof (induction xs arbitrary: s)
  case Nil
  show ?case by simp
next
  case (Cons x xs)
  from assms obtain s1 where "body x s = Inr s1" by blast
  with Cons.IH [of s1] show ?case by simp
qed

lemma for_each_idle:
  "(\<forall>x \<in> set xs. body x s = Inr s) \<Longrightarrow> for_each body xs s = Inr s"
  by (induction xs) auto

text \<open>
  One round of the first loop opens the region, closes it, or keeps the flag and
  appends at most one result; it never raises, since \<open>parts\<close> is indexed only when it has
  three items or more.
\<close>

lemma structured_step_cases:
  "structured_step line (b, acc) = Inr (True, acc) \<or>
   structured_step line (b, acc) = Inr (False, acc) \<or>
   structured_step line (b, acc) = Inr (b, acc) \<or>
   (\<exists>r. structured_step line (b, acc) = Inr (b, acc @ [r]))"
  by (auto simp: structured_step_def str_split_lit item_first item_last split_from_not_Nil)

lemma structured_step_total: "\<exists>st'. structured_step line st = Inr st'"
  using structured_step_cases [of line "fst st" "snd st"] by auto

lemma structured_loop_total: "\<exists>b acc'. for_each structured_step ls st = Inr (b, acc')"
  using for_each_total [of structured_step ls st, OF structured_step_total] by auto

lemma structured_step_grows:
  "structured_step line (b, acc) = Inr (b', acc') \<Longrightarrow> set acc \<subseteq> set acc'"
  using structured_step_cases [of line b acc] by auto

lemma structured_loop_grows:
  "for_each structured_step ls (b, acc) = Inr (b', acc') \<Longrightarrow> set acc \<subseteq> set acc'"
proof (induction ls arbitrary: b acc)
  case Nil
  then show ?case by simp
next
  case (Cons l ls)
  then obtain b1 acc1 where step: "structured_step l (b, acc) = Inr (b1, acc1)"
    and rest: "for_each structured_step ls (b1, acc1) = Inr (b', acc')"
    by (auto split: sum.splits)
  from structured_step_grows [OF step] Cons.IH [OF rest] show ?case by blast
qed

text \<open>Once open, the region stays open over lines without the LOGS marker.\<close>

lemma structured_step_open:
  assumes "\<not> contains (lit ''========== LOGS =========='') line"
  shows "\<exists>acc'. structured_step line (True, acc) = Inr (True, acc')"
  using assms
  by (auto simp: structured_step_def str_split_lit item_first item_last split_from_not_Nil)

lemma structured_loop_open:
  assumes "\<forall>l \<in> set ls. \<not> contains (lit ''========== LOGS =========='') l"
  shows "\<exists>acc'. for_each structured_step ls (True, acc) = Inr (True, acc')"
  using assms
proof (induction ls arbitrary: acc)
  case Nil
  show ?case by simp
next
  case (Cons l ls)
  then obtain acc1 where "structured_step l (True, acc) = Inr (True, acc1)"
    using structured_step_open [of l acc] by auto
  with Cons show ?case by simp
qed

lemma structured_step_emit:
  assumes "\<not> contains (lit ''========== TEST RESULTS =========='') line"
    and "\<not> contains (lit ''========== LOGS =========='') line"
    and "contains (lit '' - '') line"
    and "contains (lit ''pass'') line \<or> contains (lit ''fail'') line \<or>
         contains (lit ''skip'') line"
    and "str_split line (lit '' - '') = Inr parts" and "length parts \<ge> 3"
  shows "structured_step line (True, acc) =
         Inr (True, acc @ [\<lparr>tr_name = strip (hd parts), tr_status = strip (last parts)\<rparr>])"
proof -
  from assms(6) have ne: "parts \<noteq> []" by auto
  from token_not_blank [OF assms(4)] have "strip line \<noteq> []" .
  with assms ne show ?thesis
    by (simp add: structured_step_def item_first item_last)
qed

text \<open>
  A line without a marker that splits into fewer than three segments leaves the state
  of the first loop as it is.
\<close>

lemma structured_step_skip:
  assumes "\<not> contains (lit ''========== TEST RESULTS =========='') line"
    and "\<not> contains (lit ''========== LOGS =========='') line"
    and "str_split line (lit '' - '') = Inr parts" and "length parts < 3"
  shows "structured_step line st = Inr st"
  using assms by (cases st) (simp add: structured_step_def)

lemma for_each_skip:
  assumes "\<And>s. body x s = Inr s"
  shows "for_each body (xs @ x # ys) s = for_each body (xs @ ys) s"
  by (simp add: for_each_append assms split: sum.splits)

lemma fallback_step_total: "\<exists>rs'. fallback_step line rs = Inr rs'"
  by (auto simp: fallback_step_def str_split_lit item_first split_from_not_Nil)

lemma parse_structured_found:
  assumes "str_split output (lit ''\<newline>'') = Inr ls"
    and "for_each structured_step ls (False, []) = Inr (b, acc)" and "acc \<noteq> []"
  shows "parse_test_results output = Inr acc"
  using assms by (simp add: parse_test_results_def)

lemma parse_test_results_returns: "\<exists>parsed. parse_test_results output = Inr parsed"
proof -
  let ?lines = "split_from (lit ''\<newline>'') [] output"
  obtain st where st: "for_each structured_step ?lines (False, []) = Inr st"
    using for_each_total [of structured_step, OF structured_step_total] by blast
  obtain rs where rs: "for_each fallback_step ?lines [] = Inr rs"
    using for_each_total [of fallback_step, OF fallback_step_total] by blast
  show ?thesis
    by (cases st) (simp add: parse_test_results_def str_split_lit st rs)
qed

text \<open>
  Without the start marker no line opens the region, and without \<open>PASSED\<close> and
  \<open>FAILED\<close> the second loop finds nothing either.
\<close>

lemma parse_no_markers:
  assumes "\<not> contains (lit ''========== TEST RESULTS =========='') output"
    and "\<not> contains (lit ''PASSED'') output" and "\<not> contains (lit ''FAILED'') output"
  shows "parse_test_results output = Inr []"
proof -
  let ?lines = "split_from (lit ''\<newline>'') [] output"
  have "\<forall>l \<in> set ?lines. structured_step l (False, []) = Inr (False, [])"
    using assms(1) line_contains by (auto simp: structured_step_def)
  then have a: "for_each structured_step ?lines (False, []) = Inr (False, [])"
    by (rule for_each_idle)
  have "\<forall>l \<in> set ?lines. fallback_step l [] = Inr []"
    using assms(2,3) line_contains by (auto simp: fallback_step_def)
  then have b: "for_each fallback_step ?lines [] = Inr []"
    by (rule for_each_idle)
  show ?thesis
    by (simp add: parse_test_results_def str_split_lit a b)
qed

text \<open>
  A line of fewer than three segments is skipped by the first loop only: when that loop
  finds nothing and the line holds \<open>PASSED\<close> or \<open>FAILED\<close>, the second loop makes a result
  of it, named by the text before its first colon.
\<close>

lemma two_segment_line_fallback:
  "parse_test_results
     (lit ''========== TEST RESULTS ==========\<newline>pass - PASSED\<newline>========== LOGS =========='')
   = Inr [\<lparr>tr_name = lit ''pass - PASSED'', tr_status = lit ''pass''\<rparr>]"
  by (simp add: parse_test_results_def str_split_def structured_step_def fallback_step_def
      item_def strip_def isspace_def lit_def)

section \<open>Facts about the runner, the aggregator and the selector\<close>

lemma run_agent_on_problem_suite: "suite (run_agent_on_problem self p ex) = p_suite p"
  by (simp add: run_agent_on_problem_def exception_outcome_def
      split: subprocess_result.splits sum.splits prod.splits)

lemma sum_list_ones: "sum_list [1. r \<leftarrow> rs, P r] = length (filter P rs)"
  by (induction rs) auto

lemma concat_filter: "[r. r \<leftarrow> rs, P r] = filter P rs"
  by (induction rs) auto

lemma fold_count_test:
  "fold count_test ts (a, b) =
     (a + length ts, b + length (filter (\<lambda>t. tr_status t = lit ''pass'') ts))"
  by (induction ts arbitrary: a b) (simp_all add: count_test_def)

lemma count_result_eq:
  "count_result r (a, b) =
     (if status r = lit ''success''
      then (a + length (test_results r),
            b + length (filter (\<lambda>t. tr_status t = lit ''pass'') (test_results r)))
      else (a, b))"
  by (simp add: count_result_def fold_count_test)

lemma fold_count_result:
  "fold count_result rs (a, b) =
     (a + (\<Sum>r\<leftarrow>filter (\<lambda>r. status r = lit ''success'') rs. length (test_results r)),
      b + (\<Sum>r\<leftarrow>filter (\<lambda>r. status r = lit ''success'') rs.
             length (filter (\<lambda>t. tr_status t = lit ''pass'') (test_results r))))"
  by (induction rs arbitrary: a b) (simp_all add: count_result_eq)

text \<open>
  The aggregator returns a report on every list: each division stands behind the test
  that its divisor is not zero. The fields of the report that the claims read:
\<close>

lemma calculate_scores_report:
  "\<exists>report. calculate_scores results = Inr report \<and>
     total_problems (overall report) = length results \<and>
     success_rate (overall report) =
       (if length results > 0
        then of_nat (length (filter (\<lambda>r. status r = lit ''success'') results)) /
             of_nat (length results)
        else 0) \<and>
     total_tests (tests report) = fst (fold count_result results (0, 0)) \<and>
     passed_tests (tests report) = snd (fold count_result results (0, 0)) \<and>
     test_success_rate (tests report) =
       (if fst (fold count_result results (0, 0)) > 0
        then of_nat (snd (fold count_result results (0, 0))) /
             of_nat (fst (fold count_result results (0, 0)))
        else 0) \<and>
     suite_total (polyglot (by_suite report)) =
       length (filter (\<lambda>r. suite r = lit ''polyglot'') results) \<and>
     suite_success_rate (polyglot (by_suite report)) =
       (if filter (\<lambda>r. suite r = lit ''polyglot'') results \<noteq> []
        then of_nat (length (filter (\<lambda>r. status r = lit ''success'')
                       (filter (\<lambda>r. suite r = lit ''polyglot'') results))) /
             of_nat (length (filter (\<lambda>r. suite r = lit ''polyglot'') results))
        else 0) \<and>
     suite_total (swebench_verified (by_suite report)) =
       length (filter (\<lambda>r. suite r = lit ''swebench_verified'') results) \<and>
     suite_success_rate (swebench_verified (by_suite report)) =
       (if filter (\<lambda>r. suite r = lit ''swebench_verified'') results \<noteq> []
        then of_nat (length (filter (\<lambda>r. status r = lit ''success'')
                       (filter (\<lambda>r. suite r = lit ''swebench_verified'') results))) /
             of_nat (length (filter (\<lambda>r. suite r = lit ''swebench_verified'') results))
        else 0)"
  unfolding calculate_scores_def truediv_def Let_def sum_list_ones concat_filter
  by simp

lemma suites_differ: "lit ''polyglot'' \<noteq> lit ''swebench_verified''"
  by (simp add: lit_def)

lemma two_suites_partition:
  assumes "\<forall>r \<in> set rs. suite r = lit ''polyglot'' \<or> suite r = lit ''swebench_verified''"
  shows "length (filter (\<lambda>r. suite r = lit ''polyglot'') rs) +
         length (filter (\<lambda>r. suite r = lit ''swebench_verified'') rs) = length rs"
  using assms suites_differ by (induction rs) auto

lemma from_catalog_Catalog:
  "from_catalog (Catalog entries) pick to_problem = Inr (map to_problem (pick entries))"
  by (simp add: from_catalog_def)

lemma from_catalog_Missing: "from_catalog Missing pick to_problem = Inr []"
  by (simp add: from_catalog_def)

lemma from_catalog_members:
  "from_catalog catalog pick to_problem = Inr sel \<Longrightarrow> p \<in> set sel \<Longrightarrow>
   \<exists>entries e. catalog = Catalog entries \<and> e \<in> set (pick entries) \<and> p = to_problem e"
  by (cases catalog) (auto simp: from_catalog_def)

text \<open>
  Every selected problem comes from an entry of one of the two catalogs, and in focused
  mode the name of that entry is in \<open>focused_problems\<close>.
\<close>

lemma get_sample_problems_members:
  assumes "get_sample_problems focused polyglot_file swebench_file = Inr sel" and "p \<in> set sel"
  shows "(\<exists>entries e. polyglot_file = Catalog entries \<and> e \<in> set entries \<and>
            (focused \<longrightarrow> pe_name e \<in> set focused_problems) \<and> p = polyglot_problem e) \<or>
         (\<exists>entries e. swebench_file = Catalog entries \<and> e \<in> set entries \<and>
            (focused \<longrightarrow> instance_id e \<in> set focused_problems) \<and> p = swebench_problem e)"
proof (cases focused)
  case True
  with assms obtain a b where
    a: "from_catalog polyglot_file (filter (\<lambda>e. pe_name e \<in> set focused_problems))
          polyglot_problem = Inr a"
    and b: "from_catalog swebench_file (filter (\<lambda>e. instance_id e \<in> set focused_problems))
          swebench_problem = Inr b"
    and sel: "sel = a @ b"
    by (auto simp: get_sample_problems_def split: sum.splits)
  from assms(2) sel have "p \<in> set a \<or> p \<in> set b" by simp
  then show ?thesis
    using from_catalog_members [OF a] from_catalog_members [OF b] True by fastforce
next
  case False
  with assms obtain a b where
    a: "from_catalog polyglot_file (take 5) polyglot_problem = Inr a"
    and b: "from_catalog swebench_file (take 5) swebench_problem = Inr b"
    and sel: "sel = a @ b"
    by (auto simp: get_sample_problems_def split: sum.splits)
  from assms(2) sel have "p \<in> set a \<or> p \<in> set b" by simp
  then show ?thesis
    using from_catalog_members [OF a] from_catalog_members [OF b] False
    by (fastforce dest: in_set_takeD)
qed

text \<open>
  The selector gives every problem one of the two suites, and the runner copies the
  suite of the problem into the outcome: the outcomes of a session have no other suite.
\<close>

lemma get_sample_problems_suites:
  assumes "get_sample_problems focused polyglot_file swebench_file = Inr sel" and "p \<in> set sel"
  shows "p_suite p = lit ''polyglot'' \<or> p_suite p = lit ''swebench_verified''"
  using get_sample_problems_members [OF assms]
  by (auto simp: polyglot_problem_def swebench_problem_def)

lemma session_results_suites:
  assumes "\<forall>p \<in> set ps. p_suite p = lit ''polyglot'' \<or> p_suite p = lit ''swebench_verified''"
    and "r \<in> set (map (\<lambda>(i, problem). run_agent_on_problem self problem (env i))
                  (enumerate n ps))"
  shows "suite r = lit ''polyglot'' \<or> suite r = lit ''swebench_verified''"
proof -
  from assms(2) obtain i p where ip: "(i, p) \<in> set (enumerate n ps)"
    and r: "r = run_agent_on_problem self p (env i)"
    by auto
  from ip have "p \<in> snd ` set (enumerate n ps)" by force
  then have "p \<in> set ps"
    by (simp only: set_map [symmetric] map_snd_enumerate)
  with assms(1) r show ?thesis
    by (simp add: run_agent_on_problem_suite)
qed

lemma two_suites_totals:
  assumes "\<forall>r \<in> set results. suite r = lit ''polyglot'' \<or> suite r = lit ''swebench_verified''"
  shows "\<exists>report. calculate_scores results = Inr report \<and>
           suite_total (polyglot (by_suite report)) +
           suite_total (swebench_verified (by_suite report)) = total_problems (overall report) \<and>
           total_problems (overall report) = length results"
  using calculate_scores_report [of results] two_suites_partition [OF assms] by auto

lemma focused_names:
  "lit ''proverbscale-generator'' \<in> set focused_problems"
  "lit ''proverb'' \<notin> set focused_problems"
  "lit ''scale-generator'' \<notin> set focused_problems"
  by (simp_all add: focused_problems_def lit_def)

section \<open>Properties of the result parser\<close>

text \<open>
  C7: on the text of the spec's example, a TEST RESULTS region with the two lines
  \<open>foo - no category - pass\<close> and \<open>bar - no category - fail\<close> closed by the LOGS marker,
  the parser returns the results for foo and bar, in this order, and nothing else.
\<close>

theorem parse_test_results_example:
  "parse_test_results
     (lit ''========== TEST RESULTS ==========\<newline>foo - no category - pass\<newline>bar - no category - fail\<newline>========== LOGS =========='')
   = Inr [\<lparr>tr_name = lit ''foo'', tr_status = lit ''pass''\<rparr>,
          \<lparr>tr_name = lit ''bar'', tr_status = lit ''fail''\<rparr>]"
  by (simp add: parse_test_results_def str_split_def structured_step_def item_def strip_def
      isspace_def lit_def)

text \<open>
  C6: the parser is total. On every string it returns a list and raises nothing; on the
  empty string, and on every string without the start marker of the region and without
  \<open>PASSED\<close> and \<open>FAILED\<close>, the list is empty.
\<close>

theorem parse_test_results_total:
  "(\<exists>parsed. parse_test_results output = Inr parsed) \<and>
   parse_test_results [] = Inr [] \<and>
   (\<not> contains (lit ''========== TEST RESULTS =========='') output \<and>
    \<not> contains (lit ''PASSED'') output \<and> \<not> contains (lit ''FAILED'') output \<longrightarrow>
    parse_test_results output = Inr [])"
proof (intro conjI impI)
  show "\<exists>parsed. parse_test_results output = Inr parsed"
    by (rule parse_test_results_returns)
  show "parse_test_results [] = Inr []"
    by (simp add: parse_test_results_def str_split_def structured_step_def fallback_step_def
        strip_def lit_def)
next
  assume "\<not> contains (lit ''========== TEST RESULTS =========='') output \<and>
    \<not> contains (lit ''PASSED'') output \<and> \<not> contains (lit ''FAILED'') output"
  then show "parse_test_results output = Inr []"
    by (simp add: parse_no_markers)
qed

text \<open>The theorem at a text without any marker: the parser returns the empty list.\<close>

theorem parse_test_results_total_witness:
  "parse_test_results (lit ''Traceback: agent crashed\<newline>no tests were run'') = Inr []"
  using parse_test_results_total [of "lit ''Traceback: agent crashed\<newline>no tests were run''"]
  by (simp add: lit_def)

text \<open>
  C2, as the code has it. Take a line inside the TEST RESULTS region: it comes after a
  line with the start marker, no line in between holds the LOGS marker, and the line
  itself holds neither marker. If the line contains \<open>" - "\<close> and one of the tokens
  pass, fail, skip, and splits on \<open>" - "\<close> into three segments or more, then the parser
  returns a result for it: the name is the first segment, stripped, and the status is
  the last segment, stripped. If the line splits into fewer than three segments, the
  first loop of the parser adds no result for it: the loop ends as it does on the same
  lines without this one.
\<close>

theorem structured_line_result:
  assumes lines:
      "str_split output (lit ''\<newline>'') = Inr (before @ start # between @ line # after)"
    and start: "contains (lit ''========== TEST RESULTS =========='') start"
    and between: "\<forall>l \<in> set between. \<not> contains (lit ''========== LOGS =========='') l"
    and inside: "\<not> contains (lit ''========== TEST RESULTS =========='') line"
      "\<not> contains (lit ''========== LOGS =========='') line"
    and parts: "str_split line (lit '' - '') = Inr parts"
  shows "(contains (lit '' - '') line \<and>
          (contains (lit ''pass'') line \<or> contains (lit ''fail'') line \<or>
           contains (lit ''skip'') line) \<and>
          length parts \<ge> 3 \<longrightarrow>
            (\<exists>results. parse_test_results output = Inr results \<and>
               \<lparr>tr_name = strip (hd parts), tr_status = strip (last parts)\<rparr> \<in> set results)) \<and>
         (length parts < 3 \<longrightarrow>
            for_each structured_step (before @ start # between @ line # after) (False, []) =
            for_each structured_step (before @ start # between @ after) (False, []))"
proof (intro conjI impI)
  assume kept: "contains (lit '' - '') line \<and>
          (contains (lit ''pass'') line \<or> contains (lit ''fail'') line \<or>
           contains (lit ''skip'') line) \<and>
          length parts \<ge> 3"
  let ?r = "\<lparr>tr_name = strip (hd parts), tr_status = strip (last parts)\<rparr>"
  obtain b0 acc0 where s0: "for_each structured_step before (False, []) = Inr (b0, acc0)"
    using structured_loop_total by blast
  have s1: "structured_step start (b0, acc0) = Inr (True, acc0)"
    using start by (simp add: structured_step_def)
  obtain acc1 where s2: "for_each structured_step between (True, acc0) = Inr (True, acc1)"
    using structured_loop_open [OF between] by blast
  have s3: "structured_step line (True, acc1) = Inr (True, acc1 @ [?r])"
    using kept by (intro structured_step_emit [OF inside _ _ parts]) simp_all
  obtain b4 acc4 where s4: "for_each structured_step after (True, acc1 @ [?r]) = Inr (b4, acc4)"
    using structured_loop_total by blast
  have all: "for_each structured_step (before @ start # between @ line # after) (False, [])
             = Inr (b4, acc4)"
    by (simp add: for_each_append s0 s1 s2 s3 s4)
  from structured_loop_grows [OF s4] have mem: "?r \<in> set acc4" by auto
  then have "acc4 \<noteq> []" by auto
  from parse_structured_found [OF lines all this] mem
  show "\<exists>results. parse_test_results output = Inr results \<and> ?r \<in> set results"
    by blast
next
  assume short: "length parts < 3"
  have "for_each structured_step ((before @ start # between) @ line # after) (False, []) =
        for_each structured_step ((before @ start # between) @ after) (False, [])"
    by (rule for_each_skip) (rule structured_step_skip [OF inside parts short])
  then show "for_each structured_step (before @ start # between @ line # after) (False, []) =
        for_each structured_step (before @ start # between @ after) (False, [])"
    by simp
qed

text \<open>
  The theorem at the first line of the example of C7, \<open>foo - no category - pass\<close> with
  its three segments, and at the line \<open>foo - pass\<close> in a region of its own, where the
  first loop ends with no result.
\<close>

theorem structured_line_result_witness:
  "(\<exists>results.
      parse_test_results
        (lit ''========== TEST RESULTS ==========\<newline>foo - no category - pass\<newline>bar - no category - fail\<newline>========== LOGS =========='')
        = Inr results \<and>
      \<lparr>tr_name = lit ''foo'', tr_status = lit ''pass''\<rparr> \<in> set results) \<and>
   for_each structured_step
     [lit ''========== TEST RESULTS =========='', lit ''foo - pass'',
      lit ''========== LOGS ==========''] (False, []) = Inr (False, [])"
proof
  let ?start = "lit ''========== TEST RESULTS ==========''"
  let ?line = "lit ''foo - no category - pass''"
  let ?after = "[lit ''bar - no category - fail'', lit ''========== LOGS =========='']"
  let ?parts = "[lit ''foo'', lit ''no category'', lit ''pass'']"
  have lines:
    "str_split
       (lit ''========== TEST RESULTS ==========\<newline>foo - no category - pass\<newline>bar - no category - fail\<newline>========== LOGS =========='')
       (lit ''\<newline>'') = Inr ([] @ ?start # [] @ ?line # ?after)"
    by (simp add: str_split_def lit_def)
  have start: "contains ?start ?start"
    by (simp add: lit_def)
  have between: "\<forall>l \<in> set []. \<not> contains (lit ''========== LOGS =========='') l"
    by simp
  have inside: "\<not> contains (lit ''========== TEST RESULTS =========='') ?line"
    "\<not> contains (lit ''========== LOGS =========='') ?line"
    by (simp_all add: lit_def)
  have parts: "str_split ?line (lit '' - '') = Inr ?parts"
    by (simp add: str_split_def lit_def)
  have kept: "contains (lit '' - '') ?line \<and>
     (contains (lit ''pass'') ?line \<or> contains (lit ''fail'') ?line \<or>
      contains (lit ''skip'') ?line) \<and> length ?parts \<ge> 3"
    by (simp add: lit_def)
  have "strip (hd ?parts) = lit ''foo''" "strip (last ?parts) = lit ''pass''"
    by (simp_all add: strip_def isspace_def lit_def)
  with structured_line_result [OF lines start between inside parts] kept
  show "\<exists>results.
      parse_test_results
        (lit ''========== TEST RESULTS ==========\<newline>foo - no category - pass\<newline>bar - no category - fail\<newline>========== LOGS =========='')
        = Inr results \<and>
      \<lparr>tr_name = lit ''foo'', tr_status = lit ''pass''\<rparr> \<in> set results"
    by simp
next
  let ?start = "lit ''========== TEST RESULTS ==========''"
  let ?line = "lit ''foo - pass''"
  let ?after = "[lit ''========== LOGS =========='']"
  let ?parts = "[lit ''foo'', lit ''pass'']"
  have lines:
    "str_split
       (lit ''========== TEST RESULTS ==========\<newline>foo - pass\<newline>========== LOGS =========='')
       (lit ''\<newline>'') = Inr ([] @ ?start # [] @ ?line # ?after)"
    by (simp add: str_split_def lit_def)
  have start: "contains ?start ?start"
    by (simp add: lit_def)
  have between: "\<forall>l \<in> set []. \<not> contains (lit ''========== LOGS =========='') l"
    by simp
  have inside: "\<not> contains (lit ''========== TEST RESULTS =========='') ?line"
    "\<not> contains (lit ''========== LOGS =========='') ?line"
    by (simp_all add: lit_def)
  have parts: "str_split ?line (lit '' - '') = Inr ?parts"
    by (simp add: str_split_def lit_def)
  have short: "length ?parts < 3"
    by simp
  have without:
    "for_each structured_step ([] @ ?start # [] @ ?after) (False, []) = Inr (False, [])"
    by (simp add: structured_step_def lit_def)
  from structured_line_result [OF lines start between inside parts] short
  have "for_each structured_step ([] @ ?start # [] @ ?line # ?after) (False, []) =
        for_each structured_step ([] @ ?start # [] @ ?after) (False, [])"
    by blast
  with without
  show "for_each structured_step [?start, ?line, lit ''========== LOGS ==========''] (False, [])
        = Inr (False, [])"
    by simp
qed

text \<open>
  C2 fails as stated: on a region whose only line is the two-segment line \<open>foo - pass\<close>
  the parser returns no result. The first loop keeps a line only when it has three
  segments or more, and the second loop finds neither \<open>PASSED\<close> nor \<open>FAILED\<close> here.
\<close>

theorem two_segment_line_dropped:
  "parse_test_results
     (lit ''========== TEST RESULTS ==========\<newline>foo - pass\<newline>========== LOGS =========='')
   = Inr []"
  by (simp add: parse_test_results_def str_split_def structured_step_def fallback_step_def
      item_def strip_def isspace_def lit_def)

section \<open>Properties of the problem runner\<close>

text \<open>
  C1: when the child returns, the status follows the priority order over its standard
  output. With \<open>Container exceeded timeout\<close> in it the status is timeout; otherwise with
  \<open>ERROR\<close> and the banner \<open>========== ERROR ==========\<close> it is error; otherwise with
  the three words passed, failed and skipped, or with \<open>SUCCESS\<close> or \<open>test_results\<close>, it
  is success and the test results are what the parser returns on this output; otherwise
  it is error. Outside the success case the parser is not called and the test results
  are empty.
\<close>

theorem classification_priority:
  assumes "proc ex = Completed result"
  shows "let out = proc_stdout result; res = run_agent_on_problem self problem ex in
     if contains (lit ''Container exceeded timeout'') out
     then status res = lit ''timeout'' \<and> test_results res = []
     else if contains (lit ''ERROR'') out \<and> contains (lit ''========== ERROR =========='') out
     then status res = lit ''error'' \<and> test_results res = []
     else if (contains (lit ''passed'') out \<and> contains (lit ''failed'') out \<and>
              contains (lit ''skipped'') out) \<or>
             contains (lit ''SUCCESS'') out \<or> contains (lit ''test_results'') out
     then status res = lit ''success'' \<and> parse_test_results out = Inr (test_results res)
     else status res = lit ''error'' \<and> test_results res = []"
proof -
  obtain parsed where "parse_test_results (proc_stdout result) = Inr parsed"
    using parse_test_results_returns by blast
  with assms show ?thesis
    by (simp add: run_agent_on_problem_def classify_stdout_def Let_def)
qed

text \<open>
  The theorem at a child that prints \<open>2 passed, 1 failed, 0 skipped\<close>: the status is
  success.
\<close>

theorem classification_priority_witness:
  "status (run_agent_on_problem
      \<lparr>agent_path = lit ''miner/agent.py'', timeout = 300,
       gateway_url = lit ''http://127.0.0.1:8000''\<rparr>
      \<lparr>p_name = lit ''grep'', p_suite = lit ''polyglot'', p_tests = []\<rparr>
      \<lparr>start_time = 0,
       proc = Completed \<lparr>proc_stdout = lit ''2 passed, 1 failed, 0 skipped'',
                          proc_stderr = [], returncode = 0\<rparr>,
       end_time = 12, except_time = 12\<rparr>) = lit ''success''"
  using classification_priority [of
      "\<lparr>start_time = 0,
       proc = Completed \<lparr>proc_stdout = lit ''2 passed, 1 failed, 0 skipped'',
                          proc_stderr = [], returncode = 0\<rparr>,
       end_time = 12, except_time = 12\<rparr>"
      "\<lparr>proc_stdout = lit ''2 passed, 1 failed, 0 skipped'', proc_stderr = [], returncode = 0\<rparr>"
      "\<lparr>agent_path = lit ''miner/agent.py'', timeout = 300,
       gateway_url = lit ''http://127.0.0.1:8000''\<rparr>"
      "\<lparr>p_name = lit ''grep'', p_suite = lit ''polyglot'', p_tests = []\<rparr>"]
  by (simp add: Let_def lit_def)

text \<open>
  C8: when \<open>subprocess.run\<close> raises \<open>TimeoutExpired\<close> (the child outlived
  \<open>timeout + 60\<close> seconds), the outcome has the status timeout, no test results and the
  duration \<open>timeout + 60\<close>; when it raises another exception, the outcome has the status
  error, the text of the exception as stderr and the return code \<open>-1\<close>.
\<close>

theorem runner_failure_outcomes:
  "(proc ex = TimeoutExpired \<longrightarrow>
      status (run_agent_on_problem self problem ex) = lit ''timeout'' \<and>
      test_results (run_agent_on_problem self problem ex) = [] \<and>
      duration (run_agent_on_problem self problem ex) = of_int (timeout self + 60)) \<and>
   (proc ex = Raised message \<longrightarrow>
      status (run_agent_on_problem self problem ex) = lit ''error'' \<and>
      stderr (run_agent_on_problem self problem ex) = message \<and>
      return_code (run_agent_on_problem self problem ex) = - 1)"
  by (simp add: run_agent_on_problem_def exception_outcome_def)

text \<open>
  The theorem at a validator with the timeout 300: a child that is timed out gives the
  duration 360, and a launch that fails gives the text of its exception as stderr.
\<close>

theorem runner_failure_outcomes_witness:
  "duration (run_agent_on_problem
      \<lparr>agent_path = lit ''miner/agent.py'', timeout = 300,
       gateway_url = lit ''http://127.0.0.1:8000''\<rparr>
      \<lparr>p_name = lit ''grep'', p_suite = lit ''polyglot'', p_tests = []\<rparr>
      \<lparr>start_time = 0, proc = TimeoutExpired, end_time = 0, except_time = 0\<rparr>) = 360 \<and>
   stderr (run_agent_on_problem
      \<lparr>agent_path = lit ''miner/agent.py'', timeout = 300,
       gateway_url = lit ''http://127.0.0.1:8000''\<rparr>
      \<lparr>p_name = lit ''grep'', p_suite = lit ''polyglot'', p_tests = []\<rparr>
      \<lparr>start_time = 0, proc = Raised (lit ''No such file or directory''), end_time = 0,
       except_time = 1\<rparr>) = lit ''No such file or directory''"
  using
    runner_failure_outcomes [where
      ex = "\<lparr>start_time = 0, proc = TimeoutExpired, end_time = 0, except_time = 0\<rparr>"
      and self = "\<lparr>agent_path = lit ''miner/agent.py'', timeout = 300,
                   gateway_url = lit ''http://127.0.0.1:8000''\<rparr>"
      and problem = "\<lparr>p_name = lit ''grep'', p_suite = lit ''polyglot'', p_tests = []\<rparr>"]
    runner_failure_outcomes [where
      ex = "\<lparr>start_time = 0, proc = Raised (lit ''No such file or directory''),
                 end_time = 0, except_time = 1\<rparr>"
      and message = "lit ''No such file or directory''"
      and self = "\<lparr>agent_path = lit ''miner/agent.py'', timeout = 300,
                   gateway_url = lit ''http://127.0.0.1:8000''\<rparr>"
      and problem = "\<lparr>p_name = lit ''grep'', p_suite = lit ''polyglot'', p_tests = []\<rparr>"]
  by simp

section \<open>Properties of the score aggregator\<close>

text \<open>
  C3: on every list of outcomes that a session builds (one outcome from the runner for
  each selected problem) and hands to the aggregator, the total of polyglot plus the
  total of swebench_verified in \<open>by_suite\<close> is \<open>total_problems\<close>. The selector gives
  every problem one of the two suites and the runner copies it, and the sum holds on
  every list of outcomes with these two suites, empty or not.
\<close>

theorem by_suite_totals_sum:
  "(get_sample_problems focused polyglot_file swebench_file = Inr sample_problems \<longrightarrow>
      (\<exists>built scores.
         run_validation self focused polyglot_file swebench_file env = Inr (built, scores) \<and>
         calculate_scores built = Inr scores \<and>
         length built = length sample_problems \<and>
         suite_total (polyglot (by_suite scores)) +
         suite_total (swebench_verified (by_suite scores)) = total_problems (overall scores) \<and>
         total_problems (overall scores) = length built)) \<and>
   ((\<forall>r \<in> set results. suite r = lit ''polyglot'' \<or> suite r = lit ''swebench_verified'') \<longrightarrow>
      (\<exists>report. calculate_scores results = Inr report \<and>
         suite_total (polyglot (by_suite report)) +
         suite_total (swebench_verified (by_suite report)) = total_problems (overall report)))"
proof (intro conjI impI)
  assume "\<forall>r \<in> set results. suite r = lit ''polyglot'' \<or> suite r = lit ''swebench_verified''"
  from two_suites_totals [OF this]
  show "\<exists>report. calculate_scores results = Inr report \<and>
         suite_total (polyglot (by_suite report)) +
         suite_total (swebench_verified (by_suite report)) = total_problems (overall report)"
    by blast
next
  assume sel: "get_sample_problems focused polyglot_file swebench_file = Inr sample_problems"
  let ?built = "map (\<lambda>(i, problem). run_agent_on_problem self problem (env i))
                  (enumerate 0 sample_problems)"
  have "\<forall>p \<in> set sample_problems.
          p_suite p = lit ''polyglot'' \<or> p_suite p = lit ''swebench_verified''"
    using get_sample_problems_suites [OF sel] by blast
  then have "\<forall>r \<in> set ?built. suite r = lit ''polyglot'' \<or> suite r = lit ''swebench_verified''"
    using session_results_suites by blast
  from two_suites_totals [OF this] obtain scores where
    scores: "calculate_scores ?built = Inr scores"
    and total: "suite_total (polyglot (by_suite scores)) +
       suite_total (swebench_verified (by_suite scores)) = total_problems (overall scores)"
      "total_problems (overall scores) = length ?built"
    by blast
  have len: "length ?built = length sample_problems"
    by simp
  have "run_validation self focused polyglot_file swebench_file env = Inr (?built, scores)"
    by (simp add: run_validation_def sel scores Let_def)
  with scores total len
  show "\<exists>built scores.
         run_validation self focused polyglot_file swebench_file env = Inr (built, scores) \<and>
         calculate_scores built = Inr scores \<and>
         length built = length sample_problems \<and>
         suite_total (polyglot (by_suite scores)) +
         suite_total (swebench_verified (by_suite scores)) = total_problems (overall scores) \<and>
         total_problems (overall scores) = length built"
    by blast
qed

text \<open>
  The theorem at a session in default mode over one Polyglot entry and one SWE-bench
  entry, both children timed out, and at the list of one outcome of each suite: in both
  the two totals add up to the 2 problems.
\<close>

theorem by_suite_totals_sum_witness:
  "(\<exists>built scores.
      run_validation
        \<lparr>agent_path = lit ''miner/agent.py'', timeout = 300,
         gateway_url = lit ''http://127.0.0.1:8000''\<rparr>
        False
        (Catalog [\<lparr>pe_name = lit ''grep'', pe_tests = []\<rparr>])
        (Catalog [\<lparr>instance_id = lit ''django-1'', FAIL_TO_PASS = None, PASS_TO_PASS = None\<rparr>])
        (\<lambda>i. \<lparr>start_time = 0, proc = TimeoutExpired, end_time = 0, except_time = 0\<rparr>)
        = Inr (built, scores) \<and>
      suite_total (polyglot (by_suite scores)) +
      suite_total (swebench_verified (by_suite scores)) = total_problems (overall scores) \<and>
      total_problems (overall scores) = 2) \<and>
   (\<exists>report.
      calculate_scores
        [\<lparr>problem_name = lit ''grep'', suite = lit ''polyglot'', status = lit ''success'',
          duration = 12, test_results = [], stdout = lit ''SUCCESS'', stderr = [],
          return_code = 0\<rparr>,
         \<lparr>problem_name = lit ''django-1'', suite = lit ''swebench_verified'',
          status = lit ''timeout'', duration = 360, test_results = [], stdout = [],
          stderr = lit ''Process timed out'', return_code = - 1\<rparr>] = Inr report \<and>
      suite_total (polyglot (by_suite report)) +
      suite_total (swebench_verified (by_suite report)) = total_problems (overall report))"
proof -
  let ?polyglot_file = "Catalog [\<lparr>pe_name = lit ''grep'', pe_tests = []\<rparr>]"
  let ?swebench_file =
    "Catalog [\<lparr>instance_id = lit ''django-1'', FAIL_TO_PASS = None, PASS_TO_PASS = None\<rparr>]"
  let ?sample = "[\<lparr>p_name = lit ''grep'', p_suite = lit ''polyglot'', p_tests = []\<rparr>,
                  \<lparr>p_name = lit ''django-1'', p_suite = lit ''swebench_verified'',
                   p_tests = []\<rparr>]"
  let ?results =
       "[\<lparr>problem_name = lit ''grep'', suite = lit ''polyglot'', status = lit ''success'',
          duration = 12, test_results = [], stdout = lit ''SUCCESS'', stderr = [],
          return_code = 0\<rparr>,
         \<lparr>problem_name = lit ''django-1'', suite = lit ''swebench_verified'',
          status = lit ''timeout'', duration = 360, test_results = [], stdout = [],
          stderr = lit ''Process timed out'', return_code = - 1\<rparr>]"
  have sel: "get_sample_problems False ?polyglot_file ?swebench_file = Inr ?sample"
    by (simp add: get_sample_problems_def from_catalog_def polyglot_problem_def
        swebench_problem_def)
  have typed: "\<forall>r \<in> set ?results.
      suite r = lit ''polyglot'' \<or> suite r = lit ''swebench_verified''"
    by simp
  from by_suite_totals_sum [where results = ?results and focused = False
      and polyglot_file = ?polyglot_file and swebench_file = ?swebench_file
      and sample_problems = ?sample
      and self = "\<lparr>agent_path = lit ''miner/agent.py'', timeout = 300,
                   gateway_url = lit ''http://127.0.0.1:8000''\<rparr>"
      and env = "\<lambda>i. \<lparr>start_time = 0, proc = TimeoutExpired, end_time = 0,
                         except_time = 0\<rparr>"]
    sel typed
  show ?thesis by auto
qed

text \<open>
  C4: on every list of outcomes the aggregator returns a report, so no division raises;
  in it \<open>success_rate\<close> is 0 when \<open>total_problems\<close> is 0, \<open>test_success_rate\<close> is 0 when
  \<open>total_tests\<close> is 0, and the rate of a suite is 0 when no outcome has this suite.
\<close>

theorem no_division_by_zero:
  "\<exists>report. calculate_scores results = Inr report \<and>
     (total_problems (overall report) = 0 \<longrightarrow> success_rate (overall report) = 0) \<and>
     (total_tests (tests report) = 0 \<longrightarrow> test_success_rate (tests report) = 0) \<and>
     (suite_total (polyglot (by_suite report)) = 0 \<longrightarrow>
        suite_success_rate (polyglot (by_suite report)) = 0) \<and>
     (suite_total (swebench_verified (by_suite report)) = 0 \<longrightarrow>
        suite_success_rate (swebench_verified (by_suite report)) = 0)"
  using calculate_scores_report [of results] by auto

text \<open>The theorem at the empty list: all four divisors are 0, and all four rates are 0.\<close>

theorem no_division_by_zero_witness:
  "\<exists>report. calculate_scores [] = Inr report \<and>
     total_problems (overall report) = 0 \<and> success_rate (overall report) = 0 \<and>
     total_tests (tests report) = 0 \<and> test_success_rate (tests report) = 0 \<and>
     suite_total (polyglot (by_suite report)) = 0 \<and>
     suite_success_rate (polyglot (by_suite report)) = 0 \<and>
     suite_total (swebench_verified (by_suite report)) = 0 \<and>
     suite_success_rate (swebench_verified (by_suite report)) = 0"
  using no_division_by_zero [of "[]"] calculate_scores_report [of "[]"] by auto

text \<open>
  C5: \<open>total_tests\<close> is the number of test results of the outcomes whose status is
  success, and \<open>passed_tests\<close> is the number of those with the status pass; an outcome
  of another status adds nothing to either, whatever its \<open>test_results\<close> hold.
\<close>

theorem tests_counted_on_success_only:
  "\<exists>report. calculate_scores results = Inr report \<and>
     total_tests (tests report) =
       (\<Sum>r\<leftarrow>filter (\<lambda>r. status r = lit ''success'') results. length (test_results r)) \<and>
     passed_tests (tests report) =
       (\<Sum>r\<leftarrow>filter (\<lambda>r. status r = lit ''success'') results.
          length (filter (\<lambda>t. tr_status t = lit ''pass'') (test_results r)))"
  using calculate_scores_report [of results] by (auto simp: fold_count_result)

text \<open>
  The theorem at a success with two passes and one fail, followed by a timeout and an
  error that both carry a passed test: 3 tests are counted, 2 of them passed.
\<close>

theorem tests_counted_on_success_only_witness:
  "\<exists>report.
     calculate_scores
       [\<lparr>problem_name = lit ''grep'', suite = lit ''polyglot'', status = lit ''success'',
         duration = 12,
         test_results = [\<lparr>tr_name = lit ''a'', tr_status = lit ''pass''\<rparr>,
                         \<lparr>tr_name = lit ''b'', tr_status = lit ''pass''\<rparr>,
                         \<lparr>tr_name = lit ''c'', tr_status = lit ''fail''\<rparr>],
         stdout = [], stderr = [], return_code = 0\<rparr>,
        \<lparr>problem_name = lit ''pov'', suite = lit ''polyglot'', status = lit ''timeout'',
         duration = 360, test_results = [\<lparr>tr_name = lit ''d'', tr_status = lit ''pass''\<rparr>],
         stdout = [], stderr = [], return_code = - 1\<rparr>,
        \<lparr>problem_name = lit ''forth'', suite = lit ''polyglot'', status = lit ''error'',
         duration = 1, test_results = [\<lparr>tr_name = lit ''e'', tr_status = lit ''pass''\<rparr>],
         stdout = [], stderr = [], return_code = - 1\<rparr>] = Inr report \<and>
     total_tests (tests report) = 3 \<and> passed_tests (tests report) = 2"
  using tests_counted_on_success_only [of
       "[\<lparr>problem_name = lit ''grep'', suite = lit ''polyglot'', status = lit ''success'',
         duration = 12,
         test_results = [\<lparr>tr_name = lit ''a'', tr_status = lit ''pass''\<rparr>,
                         \<lparr>tr_name = lit ''b'', tr_status = lit ''pass''\<rparr>,
                         \<lparr>tr_name = lit ''c'', tr_status = lit ''fail''\<rparr>],
         stdout = [], stderr = [], return_code = 0\<rparr>,
        \<lparr>problem_name = lit ''pov'', suite = lit ''polyglot'', status = lit ''timeout'',
         duration = 360, test_results = [\<lparr>tr_name = lit ''d'', tr_status = lit ''pass''\<rparr>],
         stdout = [], stderr = [], return_code = - 1\<rparr>,
        \<lparr>problem_name = lit ''forth'', suite = lit ''polyglot'', status = lit ''error'',
         duration = 1, test_results = [\<lparr>tr_name = lit ''e'', tr_status = lit ''pass''\<rparr>],
         stdout = [], stderr = [], return_code = - 1\<rparr>]"]
  by (auto simp: lit_def)

section \<open>Properties of the problem selector\<close>

text \<open>
  C9: in default mode the selection is the first 5 entries of the Polyglot catalog, in
  file order, followed by the first 5 entries of the SWE-bench catalog, in file order;
  with 5 and 8 entries it has exactly 10 problems, named as the entries are, in their
  order; a missing catalog file adds no problem and raises nothing.
\<close>

theorem default_selection:
  "get_sample_problems False (Catalog ps) (Catalog ss) =
     Inr (map polyglot_problem (take 5 ps) @ map swebench_problem (take 5 ss)) \<and>
   (length ps = 5 \<and> length ss = 8 \<longrightarrow>
      (\<exists>sel. get_sample_problems False (Catalog ps) (Catalog ss) = Inr sel \<and>
         length sel = 10 \<and>
         map p_name sel = map pe_name ps @ map instance_id (take 5 ss))) \<and>
   get_sample_problems False Missing (Catalog ss) = Inr (map swebench_problem (take 5 ss)) \<and>
   get_sample_problems False (Catalog ps) Missing = Inr (map polyglot_problem (take 5 ps)) \<and>
   get_sample_problems False Missing Missing = Inr []"
  by (simp add: get_sample_problems_def from_catalog_Catalog from_catalog_Missing
      polyglot_problem_def swebench_problem_def comp_def)

text \<open>
  The theorem at a Polyglot catalog of 5 entries and a SWE-bench catalog of 8: the 10
  selected names are the 5 of the first and the first 5 of the second.
\<close>

theorem default_selection_witness:
  "\<exists>sel.
     get_sample_problems False
       (Catalog (map (\<lambda>n. \<lparr>pe_name = n, pe_tests = []\<rparr>)
          [lit ''p1'', lit ''p2'', lit ''p3'', lit ''p4'', lit ''p5'']))
       (Catalog (map (\<lambda>n. \<lparr>instance_id = n, FAIL_TO_PASS = None, PASS_TO_PASS = None\<rparr>)
          [lit ''s1'', lit ''s2'', lit ''s3'', lit ''s4'', lit ''s5'', lit ''s6'', lit ''s7'',
           lit ''s8''])) = Inr sel \<and>
     length sel = 10 \<and>
     map p_name sel =
       [lit ''p1'', lit ''p2'', lit ''p3'', lit ''p4'', lit ''p5'',
        lit ''s1'', lit ''s2'', lit ''s3'', lit ''s4'', lit ''s5'']"
  using default_selection [of
       "map (\<lambda>n. \<lparr>pe_name = n, pe_tests = []\<rparr>)
          [lit ''p1'', lit ''p2'', lit ''p3'', lit ''p4'', lit ''p5'']"
       "map (\<lambda>n. \<lparr>instance_id = n, FAIL_TO_PASS = None, PASS_TO_PASS = None\<rparr>)
          [lit ''s1'', lit ''s2'', lit ''s3'', lit ''s4'', lit ''s5'', lit ''s6'', lit ''s7'',
           lit ''s8'']"]
  by (auto simp: polyglot_problem_def swebench_problem_def)

text \<open>
  C10: \<open>focused_problems\<close> holds the one name \<open>proverbscale-generator\<close>, made of the two
  adjacent literals. Whatever the catalogs hold, no problem of the focused selection is
  named \<open>proverb\<close> or \<open>scale-generator\<close>, and every entry of either catalog that is named
  \<open>proverbscale-generator\<close> is selected.
\<close>

theorem focused_proverb_scale_generator:
  assumes "get_sample_problems True polyglot_file swebench_file = Inr sel"
  shows "lit ''proverb'' @ lit ''scale-generator'' \<in> set focused_problems \<and>
     lit ''proverbscale-generator'' \<in> set focused_problems \<and>
     (\<forall>p \<in> set sel. p_name p \<noteq> lit ''proverb'' \<and> p_name p \<noteq> lit ''scale-generator'') \<and>
     (\<forall>entries e. polyglot_file = Catalog entries \<and> e \<in> set entries \<and>
        pe_name e = lit ''proverbscale-generator'' \<longrightarrow> polyglot_problem e \<in> set sel) \<and>
     (\<forall>entries e. swebench_file = Catalog entries \<and> e \<in> set entries \<and>
        instance_id e = lit ''proverbscale-generator'' \<longrightarrow> swebench_problem e \<in> set sel)"
proof (intro conjI ballI allI impI)
  show "lit ''proverb'' @ lit ''scale-generator'' \<in> set focused_problems"
    by (simp add: focused_problems_def)
  show "lit ''proverbscale-generator'' \<in> set focused_problems"
    by (rule focused_names)
next
  fix p assume "p \<in> set sel"
  from get_sample_problems_members [OF assms this] have "p_name p \<in> set focused_problems"
    by (auto simp: polyglot_problem_def swebench_problem_def)
  with focused_names show "p_name p \<noteq> lit ''proverb''" "p_name p \<noteq> lit ''scale-generator''"
    by auto
next
  fix entries e
  assume "polyglot_file = Catalog entries \<and> e \<in> set entries \<and>
    pe_name e = lit ''proverbscale-generator''"
  with assms focused_names(1) show "polyglot_problem e \<in> set sel"
    by (auto simp: get_sample_problems_def from_catalog_Catalog split: sum.splits)
next
  fix entries e
  assume "swebench_file = Catalog entries \<and> e \<in> set entries \<and>
    instance_id e = lit ''proverbscale-generator''"
  with assms focused_names(1) show "swebench_problem e \<in> set sel"
    by (auto simp: get_sample_problems_def from_catalog_Catalog split: sum.splits)
qed

text \<open>
  The theorem at a Polyglot catalog with the entries \<open>proverb\<close>, \<open>scale-generator\<close>,
  \<open>proverbscale-generator\<close> and \<open>grep\<close>, the SWE-bench catalog missing: the last two
  entries are selected, the first two are not.
\<close>

theorem focused_proverb_scale_generator_witness:
  "get_sample_problems True
     (Catalog [\<lparr>pe_name = lit ''proverb'', pe_tests = []\<rparr>,
               \<lparr>pe_name = lit ''scale-generator'', pe_tests = []\<rparr>,
               \<lparr>pe_name = lit ''proverbscale-generator'', pe_tests = []\<rparr>,
               \<lparr>pe_name = lit ''grep'', pe_tests = []\<rparr>])
     Missing
   = Inr [\<lparr>p_name = lit ''proverbscale-generator'', p_suite = lit ''polyglot'', p_tests = []\<rparr>,
          \<lparr>p_name = lit ''grep'', p_suite = lit ''polyglot'', p_tests = []\<rparr>] \<and>
   polyglot_problem \<lparr>pe_name = lit ''proverbscale-generator'', pe_tests = []\<rparr>
     \<in> set [\<lparr>p_name = lit ''proverbscale-generator'', p_suite = lit ''polyglot'', p_tests = []\<rparr>,
            \<lparr>p_name = lit ''grep'', p_suite = lit ''polyglot'', p_tests = []\<rparr>]"
proof -
  let ?entries = "[\<lparr>pe_name = lit ''proverb'', pe_tests = []\<rparr>,
               \<lparr>pe_name = lit ''scale-generator'', pe_tests = []\<rparr>,
               \<lparr>pe_name = lit ''proverbscale-generator'', pe_tests = []\<rparr>,
               \<lparr>pe_name = lit ''grep'', pe_tests = []\<rparr>]"
  let ?sel = "[\<lparr>p_name = lit ''proverbscale-generator'', p_suite = lit ''polyglot'',
                p_tests = []\<rparr>,
               \<lparr>p_name = lit ''grep'', p_suite = lit ''polyglot'', p_tests = []\<rparr>]"
  have sel: "get_sample_problems True (Catalog ?entries) Missing = Inr ?sel"
    by (simp add: get_sample_problems_def from_catalog_def focused_problems_def
        polyglot_problem_def lit_def)
  from focused_proverb_scale_generator [OF sel]
  have "polyglot_problem \<lparr>pe_name = lit ''proverbscale-generator'', pe_tests = []\<rparr>
          \<in> set ?sel"
    by simp
  with sel show ?thesis by simp
qed

end
